theory Spec2Isabelle
  imports Complex_Main "HOL-Library.Char_ord" "HOL-Library.List_Lexorder"
begin

section \<open>Filter rule tokens of \<^verbatim>\<open>Variant.h\<close>\<close>

text \<open>
  The enumerations of the header, in declaration order.
\<close>

datatype VariantFieldType =
    FIELD_FLOAT
  | FIELD_INTEGER
  | FIELD_BOOL
  | FIELD_STRING
  | FIELD_UNKNOWN

datatype RuleTokenType =
    OPERAND
  | NUMBER
  | BOOLEAN_VARIABLE
  | NUMERIC_VARIABLE
  | STRING_VARIABLE
  | AND_OPERATOR
  | OR_OPERATOR
  | ADD_OPERATOR
  | SUBTRACT_OPERATOR
  | MULTIPLY_OPERATOR
  | DIVIDE_OPERATOR
  | NOT_OPERATOR
  | EQUAL_OPERATOR
  | GREATER_THAN_OPERATOR
  | LESS_THAN_OPERATOR
  | LEFT_PARENTHESIS
  | RIGHT_PARENTHESIS

definition INDEX_NONE :: int where
  "INDEX_NONE = - 1"

definition NULL_ALLELE :: int where
  "NULL_ALLELE = - 1"

text \<open>
  \<^verbatim>\<open>struct RuleToken\<close>. The field \<^verbatim>\<open>value\<close> is written \<open>value'\<close>. The
  \<^verbatim>\<open>double number\<close> is idealised as an exact rational.
\<close>

record RuleToken =
  type :: RuleTokenType
  value' :: string
  number :: rat
  str :: string
  state :: bool
  isVariable :: bool

text \<open>
  How a call of a C++ function ends: it returns a value, or it writes a line to
  \<^verbatim>\<open>cerr\<close> and ends the whole process through \<^verbatim>\<open>exit\<close>.
\<close>

datatype 'a outcome =
    Returns 'a
  | Exits string int

fun terminatesProcess :: "'a outcome \<Rightarrow> bool" where
  "terminatesProcess (Returns _) = False"
| "terminatesProcess (Exits _ _) = True"

definition priority :: "RuleToken \<Rightarrow> int outcome" where
  "priority token =
     (case type token of
        MULTIPLY_OPERATOR \<Rightarrow> Returns 8
      | DIVIDE_OPERATOR \<Rightarrow> Returns 8
      | ADD_OPERATOR \<Rightarrow> Returns 7
      | SUBTRACT_OPERATOR \<Rightarrow> Returns 7
      | NOT_OPERATOR \<Rightarrow> Returns 6
      | EQUAL_OPERATOR \<Rightarrow> Returns 5
      | GREATER_THAN_OPERATOR \<Rightarrow> Returns 5
      | LESS_THAN_OPERATOR \<Rightarrow> Returns 5
      | AND_OPERATOR \<Rightarrow> Returns 4
      | OR_OPERATOR \<Rightarrow> Returns 3
      | LEFT_PARENTHESIS \<Rightarrow> Returns 0
      | RIGHT_PARENTHESIS \<Rightarrow> Returns 0
      | _ \<Rightarrow> Exits ''invalid token type'' 1)"

definition isRightAssociative :: "RuleToken \<Rightarrow> bool" where
  "isRightAssociative token \<longleftrightarrow>
     type token = NOT_OPERATOR \<or> type token = LEFT_PARENTHESIS"

definition isLeftAssociative :: "RuleToken \<Rightarrow> bool" where
  "isLeftAssociative token \<longleftrightarrow> \<not> isRightAssociative token"

definition isLeftParenthesis :: "RuleToken \<Rightarrow> bool" where
  "isLeftParenthesis token \<longleftrightarrow> type token = LEFT_PARENTHESIS"

definition isRightParenthesis :: "RuleToken \<Rightarrow> bool" where
  "isRightParenthesis token \<longleftrightarrow> type token = RIGHT_PARENTHESIS"

definition isOperand :: "RuleToken \<Rightarrow> bool" where
  "isOperand token \<longleftrightarrow>
     type token = OPERAND \<or>
     type token = NUMBER \<or>
     type token = NUMERIC_VARIABLE \<or>
     type token = STRING_VARIABLE \<or>
     type token = BOOLEAN_VARIABLE"

definition isOperator :: "RuleToken \<Rightarrow> bool" where
  "isOperator token \<longleftrightarrow>
     type token = AND_OPERATOR \<or>
     type token = OR_OPERATOR \<or>
     type token = NOT_OPERATOR \<or>
     type token = EQUAL_OPERATOR \<or>
     type token = GREATER_THAN_OPERATOR \<or>
     type token = LESS_THAN_OPERATOR \<or>
     type token = MULTIPLY_OPERATOR \<or>
     type token = DIVIDE_OPERATOR \<or>
     type token = ADD_OPERATOR \<or>
     type token = SUBTRACT_OPERATOR"

definition isOperatorChar :: "char \<Rightarrow> bool" where
  "isOperatorChar c \<longleftrightarrow>
     c = CHR ''!'' \<or> c = CHR ''&'' \<or> c = CHR ''|'' \<or> c = CHR ''='' \<or>
     c = CHR ''>'' \<or> c = CHR ''<'' \<or> c = CHR ''*'' \<or> c = CHR ''/'' \<or>
     c = CHR ''+'' \<or> c = CHR ''-''"

definition isParanChar :: "char \<Rightarrow> bool" where
  "isParanChar c \<longleftrightarrow> c = CHR ''('' \<or> c = CHR '')''"

definition isNumeric :: "RuleToken \<Rightarrow> bool" where
  "isNumeric token \<longleftrightarrow> type token = NUMERIC_VARIABLE"

definition isString :: "RuleToken \<Rightarrow> bool" where
  "isString token \<longleftrightarrow> type token = STRING_VARIABLE"

definition isBoolean :: "RuleToken \<Rightarrow> bool" where
  "isBoolean token \<longleftrightarrow> type token = BOOLEAN_VARIABLE"

text \<open>
  \<^verbatim>\<open>isVariable\<close> the function, written \<open>isVariable'\<close> beside the field of that
  name.
\<close>

definition isVariable' :: "RuleToken \<Rightarrow> bool" where
  "isVariable' token \<longleftrightarrow> isNumeric token \<or> isString token \<or> isBoolean token"


section \<open>The \<^verbatim>\<open>convert\<close> helper\<close>

text \<open>
  \<^verbatim>\<open>convert\<close> builds an \<^verbatim>\<open>istringstream\<close> on \<open>s\<close>, runs \<^verbatim>\<open>iss >> r\<close> and
  then looks at \<^verbatim>\<open>iss.fail()\<close> and \<^verbatim>\<open>iss.tellg()\<close>. It is a template, and the
  extraction belongs to the C++ library, so the extraction is a parameter of the
  model. It answers \<open>Failed\<close> when \<^verbatim>\<open>fail()\<close> holds afterwards, with the value it
  has stored in \<open>r\<close> if it has stored one, and otherwise \<open>Extracted\<close> with the
  value stored in \<open>r\<close> and the position \<^verbatim>\<open>tellg()\<close> reports. That position is an
  integer: \<open>- 1\<close>, by which \<^verbatim>\<open>tellg()\<close> reports a failure of its own, is the size
  of no string.
\<close>

datatype 'r extracted =
    Failed "'r option"
  | Extracted 'r int

definition convert :: "(string \<Rightarrow> 'r extracted) \<Rightarrow> string \<Rightarrow> 'r \<Rightarrow> bool \<times> 'r" where
  "convert extract s r =
     (case extract s of
        Failed None \<Rightarrow> (False, r)
      | Failed (Some v) \<Rightarrow> (False, v)
      | Extracted v pos \<Rightarrow> (if pos \<noteq> int (length s) then False else True, v))"

definition isSpace :: "char \<Rightarrow> bool" where
  "isSpace c \<longleftrightarrow>
     c = CHR 0x20 \<or> c = CHR 0x09 \<or> c = CHR 0x0A \<or> c = CHR 0x0B \<or>
     c = CHR 0x0C \<or> c = CHR 0x0D"

definition isDigit :: "char \<Rightarrow> bool" where
  "isDigit c \<longleftrightarrow> c \<in> set ''0123456789''"

definition digitValue :: "char \<Rightarrow> nat" where
  "digitValue c = of_char c - 48"

definition digitsValue :: "string \<Rightarrow> nat" where
  "digitsValue ds = foldl (\<lambda>a c. 10 * a + digitValue c) 0 ds"

text \<open>
  The stream library is not part of the repository. What follows is the extraction
  \<^verbatim>\<open>iss >> r\<close> for a \<^verbatim>\<open>double\<close>, and the \<^verbatim>\<open>tellg()\<close> after it, as a C++11
  library does them.

  \<open>tellgAfter s rest\<close> is the answer of \<^verbatim>\<open>tellg()\<close> after a successful read of
  \<open>s\<close> that stopped in front of \<open>rest\<close>. A read that consumes the last character
  has looked for one more and met the end of the input, which sets \<^verbatim>\<open>eofbit\<close>; on
  a stream in that state \<^verbatim>\<open>tellg()\<close> sets \<^verbatim>\<open>failbit\<close> and answers \<open>- 1\<close>.
  Otherwise it answers the number of characters consumed.
\<close>

definition tellgAfter :: "string \<Rightarrow> string \<Rightarrow> int" where
  "tellgAfter s rest =
     (if rest = [] then - 1 else int (length s) - int (length rest))"

text \<open>
  The largest \<^verbatim>\<open>double\<close>, and the values that no \<^verbatim>\<open>double\<close> is near enough to:
  those that round to a magnitude of \<open>2 ^ 1024\<close>.
\<close>

definition DBL_MAX :: rat where
  "DBL_MAX = (2 ^ 53 - 1) * 2 ^ 971"

definition overflowsDouble :: "rat \<Rightarrow> bool" where
  "overflowsDouble v \<longleftrightarrow> 2 ^ 1024 - 2 ^ 970 \<le> \<bar>v\<bar>"

text \<open>
  The extraction skips leading white space; when nothing is left it fails and
  stores nothing. It then reads an optional sign, decimal digits, an optional
  fraction and an optional exponent. Without a digit in the mantissa, or without
  one after an exponent letter, it fails and stores 0. A value too large for a
  \<^verbatim>\<open>double\<close> fails and stores the largest \<^verbatim>\<open>double\<close> with the sign read. Any
  other value is stored; it is exact here, where the library rounds it to a
  \<^verbatim>\<open>double\<close>.
\<close>

definition extractNumber :: "string \<Rightarrow> rat extracted" where
  "extractNumber s =
     (let s1 = dropWhile isSpace s;
          neg = (case s1 of [] \<Rightarrow> False | c # _ \<Rightarrow> c = CHR ''-'');
          s2 = (case s1 of
                  [] \<Rightarrow> s1
                | c # r \<Rightarrow> if c = CHR ''-'' \<or> c = CHR ''+'' then r else s1);
          ip = takeWhile isDigit s2;
          s3 = dropWhile isDigit s2;
          dot = (case s3 of [] \<Rightarrow> False | c # _ \<Rightarrow> c = CHR ''.'');
          fp = (if dot then takeWhile isDigit (tl s3) else []);
          s4 = (if dot then dropWhile isDigit (tl s3) else s3);
          hasExp = (case s4 of [] \<Rightarrow> False | c # _ \<Rightarrow> c = CHR ''e'' \<or> c = CHR ''E'');
          s5 = (if hasExp then tl s4 else s4);
          eneg = (case s5 of [] \<Rightarrow> False | c # _ \<Rightarrow> c = CHR ''-'');
          s6 = (case s5 of
                  [] \<Rightarrow> s5
                | c # r \<Rightarrow> if c = CHR ''-'' \<or> c = CHR ''+'' then r else s5);
          ed = takeWhile isDigit s6;
          s7 = dropWhile isDigit s6;
          mant = of_nat (digitsValue ip) + of_nat (digitsValue fp) / 10 ^ length fp;
          expo = (if hasExp
                  then (if eneg then 1 / 10 ^ digitsValue ed else 10 ^ digitsValue ed)
                  else 1);
          v = (if neg then - 1 else 1) * mant * expo;
          rest = (if hasExp then s7 else s4)
      in if s1 = [] then Failed None
         else if ip = [] \<and> fp = [] then Failed (Some 0)
         else if hasExp \<and> ed = [] then Failed (Some 0)
         else if overflowsDouble v then Failed (Some (if neg then - DBL_MAX else DBL_MAX))
         else Extracted v (tellgAfter s rest))"

section \<open>Filter tokenizer\<close>

datatype FilterError =
    UnrecognizedOperand string
  | UnbalancedParentheses
  | TypeMismatch
  | DivideByZero
  | MalformedFilter
  | UnknownKey string
  | UnknownSample string
  | BadValue string
  | BadIndex int
  | MalformedGenotype string

type_synonym registry = "string \<rightharpoonup> VariantFieldType"

definition plainToken :: "RuleTokenType \<Rightarrow> string \<Rightarrow> RuleToken" where
  "plainToken ty lexeme =
     \<lparr>type = ty, value' = lexeme, number = 0, str = [], state = False, isVariable = False\<rparr>"

text \<open>
  Modelled from the spec: the constructor \<^verbatim>\<open>RuleToken(string, map&)\<close>, declared in
  the header and defined elsewhere. Each of the ten operator characters and the two
  parentheses is a token of its own. Any other lexeme is an operand: a key of the
  registry is a variable of the kind its field type gives (Boolean for the Boolean
  type, Numeric for Float and Integer, String for String and Unknown); otherwise a
  lexeme that \<open>convert\<close> accepts is a Number; otherwise lexing fails.
\<close>

definition variableType :: "VariantFieldType \<Rightarrow> RuleTokenType" where
  "variableType ft =
     (case ft of
        FIELD_BOOL \<Rightarrow> BOOLEAN_VARIABLE
      | FIELD_FLOAT \<Rightarrow> NUMERIC_VARIABLE
      | FIELD_INTEGER \<Rightarrow> NUMERIC_VARIABLE
      | FIELD_STRING \<Rightarrow> STRING_VARIABLE
      | FIELD_UNKNOWN \<Rightarrow> STRING_VARIABLE)"

definition operandToken ::
  "(string \<Rightarrow> rat extracted) \<Rightarrow> string \<Rightarrow> registry \<Rightarrow> FilterError + RuleToken" where
  "operandToken extract lexeme variables =
     (case variables lexeme of
        Some ft \<Rightarrow> Inr ((plainToken (variableType ft) lexeme)\<lparr>isVariable := True\<rparr>)
      | None \<Rightarrow>
          (case convert extract lexeme 0 of
             (True, n) \<Rightarrow> Inr ((plainToken NUMBER lexeme)\<lparr>number := n\<rparr>)
           | (False, _) \<Rightarrow> Inl (UnrecognizedOperand lexeme)))"

definition RuleToken' ::
  "(string \<Rightarrow> rat extracted) \<Rightarrow> string \<Rightarrow> registry \<Rightarrow> FilterError + RuleToken" where
  "RuleToken' extract lexeme variables =
     (if lexeme = ''!'' then Inr (plainToken NOT_OPERATOR lexeme)
      else if lexeme = ''&'' then Inr (plainToken AND_OPERATOR lexeme)
      else if lexeme = ''|'' then Inr (plainToken OR_OPERATOR lexeme)
      else if lexeme = ''='' then Inr (plainToken EQUAL_OPERATOR lexeme)
      else if lexeme = ''>'' then Inr (plainToken GREATER_THAN_OPERATOR lexeme)
      else if lexeme = ''<'' then Inr (plainToken LESS_THAN_OPERATOR lexeme)
      else if lexeme = ''*'' then Inr (plainToken MULTIPLY_OPERATOR lexeme)
      else if lexeme = ''/'' then Inr (plainToken DIVIDE_OPERATOR lexeme)
      else if lexeme = ''+'' then Inr (plainToken ADD_OPERATOR lexeme)
      else if lexeme = ''-'' then Inr (plainToken SUBTRACT_OPERATOR lexeme)
      else if lexeme = ''('' then Inr (plainToken LEFT_PARENTHESIS lexeme)
      else if lexeme = '')'' then Inr (plainToken RIGHT_PARENTHESIS lexeme)
      else operandToken extract lexeme variables)"

text \<open>
  Modelled from the spec: the scanning rule of \<^verbatim>\<open>tokenizeFilterSpec\<close> (declared in
  the header only). Left to right, an operator or parenthesis character is a lexeme
  of its own, white space separates lexemes, and any other maximal run of characters
  is an operand lexeme. \<open>cur\<close> is the run being read.
\<close>

definition flush :: "string \<Rightarrow> string list" where
  "flush cur = (if cur = [] then [] else [cur])"

fun lexemes :: "string \<Rightarrow> string \<Rightarrow> string list" where
  "lexemes [] cur = flush cur"
| "lexemes (c # cs) cur =
     (if isOperatorChar c \<or> isParanChar c then flush cur @ [c] # lexemes cs []
      else if isSpace c then flush cur @ lexemes cs []
      else lexemes cs (cur @ [c]))"

fun makeTokens ::
  "(string \<Rightarrow> rat extracted) \<Rightarrow> registry \<Rightarrow> string list \<Rightarrow> FilterError + RuleToken list" where
  "makeTokens extract variables [] = Inr []"
| "makeTokens extract variables (l # ls) =
     (case RuleToken' extract l variables of
        Inl e \<Rightarrow> Inl e
      | Inr t \<Rightarrow>
          (case makeTokens extract variables ls of
             Inl e \<Rightarrow> Inl e
           | Inr ts \<Rightarrow> Inr (t # ts)))"

definition tokenizeFilterSpec ::
  "(string \<Rightarrow> rat extracted) \<Rightarrow> string \<Rightarrow> registry \<Rightarrow> FilterError + RuleToken list" where
  "tokenizeFilterSpec extract filterspec variables =
     makeTokens extract variables (lexemes filterspec [])"

section \<open>Filter parser\<close>

text \<open>
  Modelled from the spec: the precedence conversion done by the constructor of
  \<^verbatim>\<open>VariantFilter\<close> (declared in the header only), one left-to-right pass with an
  operator stack (head of the list on top) and an output sequence. It calls the
  header's \<open>priority\<close>, \<open>isLeftAssociative\<close> and the four classifying predicates,
  and passes on a process exit of \<open>priority\<close>.
\<close>

text \<open>
  Modelled from the spec: step 3 of the conversion. Pop to the output until a left
  parenthesis is popped; an empty stack is a missing left parenthesis.
\<close>

fun popToLeftParenthesis ::
  "RuleToken list \<Rightarrow> RuleToken list \<Rightarrow> FilterError + RuleToken list \<times> RuleToken list" where
  "popToLeftParenthesis [] out = Inl UnbalancedParentheses"
| "popToLeftParenthesis (t # st) out =
     (if isLeftParenthesis t then Inr (st, out)
      else popToLeftParenthesis st (out @ [t]))"

text \<open>
  Modelled from the spec: step 4 of the conversion. While the top is not a
  parenthesis and binds tighter than \<open>op\<close>, or as tightly when \<open>op\<close> is
  left-associative, pop it to the output.
\<close>

fun popTighter ::
  "RuleToken \<Rightarrow> RuleToken list \<Rightarrow> RuleToken list \<Rightarrow> (RuleToken list \<times> RuleToken list) outcome" where
  "popTighter op [] out = Returns ([], out)"
| "popTighter op (t # st) out =
     (if isLeftParenthesis t \<or> isRightParenthesis t then Returns (t # st, out)
      else
        (case priority t of
           Exits msg code \<Rightarrow> Exits msg code
         | Returns pt \<Rightarrow>
             (case priority op of
                Exits msg code \<Rightarrow> Exits msg code
              | Returns po \<Rightarrow>
                  if pt > po \<or> (pt = po \<and> isLeftAssociative op)
                  then popTighter op st (out @ [t])
                  else Returns (t # st, out))))"

text \<open>
  Modelled from the spec: step 5 of the conversion. Pop what is left; a parenthesis
  left over is an error.
\<close>

fun popAll :: "RuleToken list \<Rightarrow> RuleToken list \<Rightarrow> FilterError + RuleToken list" where
  "popAll [] out = Inr out"
| "popAll (t # st) out =
     (if isLeftParenthesis t \<or> isRightParenthesis t then Inl UnbalancedParentheses
      else popAll st (out @ [t]))"

text \<open>
  Modelled from the spec: the pass itself. An operand goes to the output (step 1), a
  left parenthesis onto the stack (step 2), a right parenthesis and an operator are
  steps 3 and 4, and step 5 ends the pass. By the classification of tokens, the last
  branch is the operators'.
\<close>

fun toPostfix ::
  "RuleToken list \<Rightarrow> RuleToken list \<Rightarrow> RuleToken list \<Rightarrow> (FilterError + RuleToken list) outcome" where
  "toPostfix [] st out = Returns (popAll st out)"
| "toPostfix (t # ts) st out =
     (if isOperand t then toPostfix ts st (out @ [t])
      else if isLeftParenthesis t then toPostfix ts (t # st) out
      else if isRightParenthesis t then
        (case popToLeftParenthesis st out of
           Inl e \<Rightarrow> Returns (Inl e)
         | Inr (st', out') \<Rightarrow> toPostfix ts st' out')
      else
        (case popTighter t st out of
           Exits msg code \<Rightarrow> Exits msg code
         | Returns (st', out') \<Rightarrow> toPostfix ts (t # st') out'))"

datatype VariantFilterType =
    SAMPLE
  | RECORD

text \<open>
  \<^verbatim>\<open>class VariantFilter\<close>; its field \<^verbatim>\<open>type\<close> is written \<open>type'\<close>. The header
  calls \<open>rules\<close> prefix notation; the conversion above emits postfix order. The
  constructor \<open>VariantFilter'\<close> is modelled from the spec: it tokenizes the spec
  and converts the tokens, and a failure of either is its error result.
\<close>

record VariantFilter =
  spec :: string
  tokens :: "RuleToken list"
  rules :: "RuleToken list"
  type' :: VariantFilterType

definition VariantFilter' ::
  "(string \<Rightarrow> rat extracted) \<Rightarrow> string \<Rightarrow> VariantFilterType \<Rightarrow> registry
     \<Rightarrow> (FilterError + VariantFilter) outcome" where
  "VariantFilter' extract filterspec filtertype variables =
     (case tokenizeFilterSpec extract filterspec variables of
        Inl e \<Rightarrow> Returns (Inl e)
      | Inr ts \<Rightarrow>
          (case toPostfix ts [] [] of
             Exits msg code \<Rightarrow> Exits msg code
           | Returns (Inl e) \<Rightarrow> Returns (Inl e)
           | Returns (Inr rs) \<Rightarrow>
               Returns (Inr \<lparr>spec = filterspec, tokens = ts, rules = rs, type' = filtertype\<rparr>)))"

section \<open>Variant records\<close>

text \<open>
  \<^verbatim>\<open>class Variant\<close>, without its reference to the call file. The fields \<^verbatim>\<open>id\<close>
  and \<^verbatim>\<open>filter\<close> are written \<open>id'\<close> and \<open>filter'\<close>; \<^verbatim>\<open>double quality\<close> is an
  exact rational.
\<close>

record Variant =
  sequenceName :: string
  position :: nat
  id' :: string
  ref :: string
  alt :: "string list"
  alleles :: "string list"
  altAlleleIndecies :: "string \<rightharpoonup> int"
  filter' :: string
  quality :: rat
  info :: "string \<rightharpoonup> string list"
  infoFlags :: "string \<rightharpoonup> bool"
  format :: "string list"
  samples :: "string \<rightharpoonup> (string \<rightharpoonup> string list)"
  sampleNames :: "string list"
  outputSampleNames :: "string list"
  lastFormat :: string

text \<open>
  The constructor \<^verbatim>\<open>Variant(VariantCallFile& v)\<close>: both lists of sample names are
  those of the call file and the containers are empty. It leaves \<^verbatim>\<open>position\<close> and
  \<^verbatim>\<open>quality\<close> without a value; they are 0 here.
\<close>

definition Variant' :: "string list \<Rightarrow> Variant" where
  "Variant' names =
     \<lparr>sequenceName = [], position = 0, id' = [], ref = [], alt = [], alleles = [],
      altAlleleIndecies = Map.empty, filter' = [], quality = 0, info = Map.empty,
      infoFlags = Map.empty, format = [], samples = Map.empty, sampleNames = names,
      outputSampleNames = names, lastFormat = []\<rparr>"

text \<open>
  Modelled from the spec: the accessors \<^verbatim>\<open>getInfoValue...\<close>, \<^verbatim>\<open>getSampleValue...\<close>
  and \<^verbatim>\<open>getValue...\<close>, declared in the header only. A stored sequence is read at
  the given index, or as a whole (its entries joined by commas) when the index is
  \<open>INDEX_NONE\<close>. The context has a sample name or none. An unknown key, an unknown
  sample, an index outside the sequence and a string that is no number are errors.
  A Boolean is the flag stored for the key at record level, and the presence of
  the key for a sample.
\<close>

fun join :: "string list \<Rightarrow> string \<Rightarrow> string" where
  "join [] delim = []"
| "join [x] delim = x"
| "join (x # y # xs) delim = x @ delim @ join (y # xs) delim"

definition valueAt :: "string list \<Rightarrow> int \<Rightarrow> FilterError + string" where
  "valueAt vals index =
     (if index = INDEX_NONE then Inr (join vals '','')
      else if 0 \<le> index \<and> nat index < length vals then Inr (vals ! nat index)
      else Inl (BadIndex index))"

definition getInfoValueString :: "Variant \<Rightarrow> string \<Rightarrow> int \<Rightarrow> FilterError + string" where
  "getInfoValueString var key index =
     (case info var key of
        None \<Rightarrow> Inl (UnknownKey key)
      | Some vals \<Rightarrow> valueAt vals index)"

definition getSampleValueString ::
  "Variant \<Rightarrow> string \<Rightarrow> string \<Rightarrow> int \<Rightarrow> FilterError + string" where
  "getSampleValueString var key sample index =
     (case samples var sample of
        None \<Rightarrow> Inl (UnknownSample sample)
      | Some entry \<Rightarrow>
          (case entry key of
             None \<Rightarrow> Inl (UnknownKey key)
           | Some vals \<Rightarrow> valueAt vals index))"

definition getValueString ::
  "Variant \<Rightarrow> string \<Rightarrow> string option \<Rightarrow> int \<Rightarrow> FilterError + string" where
  "getValueString var key sample index =
     (case sample of
        None \<Rightarrow> getInfoValueString var key index
      | Some name \<Rightarrow> getSampleValueString var key name index)"

definition getValueFloat ::
  "(string \<Rightarrow> rat extracted) \<Rightarrow> Variant \<Rightarrow> string \<Rightarrow> string option \<Rightarrow> int
     \<Rightarrow> FilterError + rat" where
  "getValueFloat extract var key sample index =
     (case getValueString var key sample index of
        Inl e \<Rightarrow> Inl e
      | Inr raw \<Rightarrow>
          (case convert extract raw 0 of
             (True, x) \<Rightarrow> Inr x
           | (False, _) \<Rightarrow> Inl (BadValue raw)))"

definition getInfoValueBool :: "Variant \<Rightarrow> string \<Rightarrow> int \<Rightarrow> FilterError + bool" where
  "getInfoValueBool var key index =
     (case infoFlags var key of
        None \<Rightarrow> Inl (UnknownKey key)
      | Some b \<Rightarrow> Inr b)"

definition getSampleValueBool ::
  "Variant \<Rightarrow> string \<Rightarrow> string \<Rightarrow> int \<Rightarrow> FilterError + bool" where
  "getSampleValueBool var key sample index =
     (case getSampleValueString var key sample index of
        Inl e \<Rightarrow> Inl e
      | Inr raw \<Rightarrow> Inr True)"

definition getValueBool ::
  "Variant \<Rightarrow> string \<Rightarrow> string option \<Rightarrow> int \<Rightarrow> FilterError + bool" where
  "getValueBool var key sample index =
     (case sample of
        None \<Rightarrow> getInfoValueBool var key index
      | Some name \<Rightarrow> getSampleValueBool var key name index)"

section \<open>Filter evaluator\<close>

text \<open>
  Modelled from the spec: the evaluator behind \<^verbatim>\<open>VariantFilter::passes\<close> (declared
  in the header only). A resolved operand is a number, a string or a Boolean. The
  sequence is walked left to right with an operand stack (head of the list on top);
  \<open>resolve\<close> reads a variable in the evaluation context.
\<close>

datatype operand =
    Numeric rat
  | Text string
  | Boolean bool

definition applyBinary :: "RuleTokenType \<Rightarrow> operand \<Rightarrow> operand \<Rightarrow> FilterError + operand" where
  "applyBinary oper l r =
     (case (l, r) of
        (Numeric a, Numeric b) \<Rightarrow>
          (case oper of
             ADD_OPERATOR \<Rightarrow> Inr (Numeric (a + b))
           | SUBTRACT_OPERATOR \<Rightarrow> Inr (Numeric (a - b))
           | MULTIPLY_OPERATOR \<Rightarrow> Inr (Numeric (a * b))
           | DIVIDE_OPERATOR \<Rightarrow> if b = 0 then Inl DivideByZero else Inr (Numeric (a / b))
           | EQUAL_OPERATOR \<Rightarrow> Inr (Boolean (a = b))
           | GREATER_THAN_OPERATOR \<Rightarrow> Inr (Boolean (b < a))
           | LESS_THAN_OPERATOR \<Rightarrow> Inr (Boolean (a < b))
           | _ \<Rightarrow> Inl TypeMismatch)
      | (Text a, Text b) \<Rightarrow>
          (case oper of
             EQUAL_OPERATOR \<Rightarrow> Inr (Boolean (a = b))
           | GREATER_THAN_OPERATOR \<Rightarrow> Inr (Boolean (b < a))
           | LESS_THAN_OPERATOR \<Rightarrow> Inr (Boolean (a < b))
           | _ \<Rightarrow> Inl TypeMismatch)
      | (Boolean a, Boolean b) \<Rightarrow>
          (case oper of
             AND_OPERATOR \<Rightarrow> Inr (Boolean (a \<and> b))
           | OR_OPERATOR \<Rightarrow> Inr (Boolean (a \<or> b))
           | _ \<Rightarrow> Inl TypeMismatch)
      | _ \<Rightarrow> Inl TypeMismatch)"

definition resolve ::
  "(string \<Rightarrow> rat extracted) \<Rightarrow> Variant \<Rightarrow> string option \<Rightarrow> int \<Rightarrow> RuleToken
     \<Rightarrow> FilterError + operand" where
  "resolve extract var sample index t =
     (case type t of
        NUMBER \<Rightarrow> Inr (Numeric (number t))
      | NUMERIC_VARIABLE \<Rightarrow> map_sum id Numeric (getValueFloat extract var (value' t) sample index)
      | STRING_VARIABLE \<Rightarrow> map_sum id Text (getValueString var (value' t) sample index)
      | BOOLEAN_VARIABLE \<Rightarrow> map_sum id Boolean (getValueBool var (value' t) sample index)
      | _ \<Rightarrow> Inl (UnrecognizedOperand (value' t)))"

fun evalRules ::
  "(RuleToken \<Rightarrow> FilterError + operand) \<Rightarrow> RuleToken list \<Rightarrow> operand list
     \<Rightarrow> FilterError + operand" where
  "evalRules res [] st =
     (case st of
        [v] \<Rightarrow> Inr v
      | _ \<Rightarrow> Inl MalformedFilter)"
| "evalRules res (t # ts) st =
     (if isOperand t then
        (case res t of
           Inl e \<Rightarrow> Inl e
         | Inr v \<Rightarrow> evalRules res ts (v # st))
      else if type t = NOT_OPERATOR then
        (case st of
           [] \<Rightarrow> Inl MalformedFilter
         | Boolean b # st' \<Rightarrow> evalRules res ts (Boolean (\<not> b) # st')
         | _ # _ \<Rightarrow> Inl TypeMismatch)
      else if isOperator t then
        (case st of
           r # l # st' \<Rightarrow>
             (case applyBinary (type t) l r of
                Inl e \<Rightarrow> Inl e
              | Inr v \<Rightarrow> evalRules res ts (v # st'))
         | _ \<Rightarrow> Inl MalformedFilter)
      else Inl MalformedFilter)"

definition verdict ::
  "(RuleToken \<Rightarrow> FilterError + operand) \<Rightarrow> RuleToken list \<Rightarrow> FilterError + bool" where
  "verdict res rs =
     (case evalRules res rs [] of
        Inl e \<Rightarrow> Inl e
      | Inr (Boolean b) \<Rightarrow> Inr b
      | Inr _ \<Rightarrow> Inl MalformedFilter)"

text \<open>
  Modelled from the spec: the two call shapes of \<^verbatim>\<open>VariantFilter::passes\<close> (declared
  in the header only; the record is passed by reference, so each call answers with
  its result and the record it leaves). A record-kind filter is evaluated once with
  no sample and no allele. For a sample-kind filter the single-allele shape
  evaluates at one explicit allele index (the header passes the allele as a string;
  the spec gives the call the index), and the all-alleles shape evaluates once per
  alternate allele, in order, stopping at the first that is not true.
\<close>

definition evaluate ::
  "(string \<Rightarrow> rat extracted) \<Rightarrow> VariantFilter \<Rightarrow> Variant \<Rightarrow> string \<Rightarrow> int
     \<Rightarrow> (FilterError + bool) \<times> Variant" where
  "evaluate extract f var sample index =
     (case type' f of
        RECORD \<Rightarrow> (verdict (resolve extract var None INDEX_NONE) (rules f), var)
      | SAMPLE \<Rightarrow> (verdict (resolve extract var (Some sample) index) (rules f), var))"

definition passesAllele ::
  "(string \<Rightarrow> rat extracted) \<Rightarrow> VariantFilter \<Rightarrow> Variant \<Rightarrow> string \<Rightarrow> int
     \<Rightarrow> (FilterError + bool) \<times> Variant" where
  "passesAllele extract f var sample index = evaluate extract f var sample index"

fun allAllelesPass ::
  "(string \<Rightarrow> rat extracted) \<Rightarrow> VariantFilter \<Rightarrow> string \<Rightarrow> nat list \<Rightarrow> Variant
     \<Rightarrow> (FilterError + bool) \<times> Variant" where
  "allAllelesPass extract f sample [] var = (Inr True, var)"
| "allAllelesPass extract f sample (i # is) var =
     (case passesAllele extract f var sample (int i) of
        (Inr True, var') \<Rightarrow> allAllelesPass extract f sample is var'
      | (r, var') \<Rightarrow> (r, var'))"

definition passes ::
  "(string \<Rightarrow> rat extracted) \<Rightarrow> VariantFilter \<Rightarrow> Variant \<Rightarrow> string
     \<Rightarrow> (FilterError + bool) \<times> Variant" where
  "passes extract f var sample =
     (case type' f of
        RECORD \<Rightarrow> evaluate extract f var sample INDEX_NONE
      | SAMPLE \<Rightarrow> allAllelesPass extract f sample [0..<length (alt var)] var)"

section \<open>Genotypes\<close>

text \<open>
  Modelled from the spec: \<^verbatim>\<open>decomposeGenotype\<close>, \<^verbatim>\<open>isHet\<close> and \<^verbatim>\<open>isHom\<close>
  (declared in the header only). The string is split at every \<^verbatim>\<open>/\<close> and \<^verbatim>\<open>|\<close>; an
  element is the missing marker \<^verbatim>\<open>.\<close>, counted under \<open>NULL_ALLELE\<close>, or a decimal
  allele index; any other element makes the decomposition fail. The
  \<^verbatim>\<open>map<int, int>\<close> is a list of (allele, count) pairs with strictly increasing
  alleles, and \<open>increment\<close> is \<^verbatim>\<open>++decomposition[k]\<close>.
\<close>

fun splitOn :: "(char \<Rightarrow> bool) \<Rightarrow> string \<Rightarrow> string list" where
  "splitOn sep [] = [[]]"
| "splitOn sep (c # cs) =
     (if sep c then [] # splitOn sep cs
      else (case splitOn sep cs of
              [] \<Rightarrow> [[c]]
            | x # xs \<Rightarrow> (c # x) # xs))"

definition isGenotypeSeparator :: "char \<Rightarrow> bool" where
  "isGenotypeSeparator c \<longleftrightarrow> c = CHR ''/'' \<or> c = CHR ''|''"

definition splitGenotype :: "string \<Rightarrow> string list" where
  "splitGenotype genotype = splitOn isGenotypeSeparator genotype"

definition parseAllele :: "string \<Rightarrow> int option" where
  "parseAllele e =
     (if e = ''.'' then Some NULL_ALLELE
      else if e \<noteq> [] \<and> list_all isDigit e then Some (int (digitsValue e))
      else None)"

fun increment :: "int \<Rightarrow> (int \<times> int) list \<Rightarrow> (int \<times> int) list" where
  "increment k [] = [(k, 1)]"
| "increment k ((k', c) # m) =
     (if k = k' then (k', c + 1) # m
      else if k < k' then (k, 1) # (k', c) # m
      else (k', c) # increment k m)"

definition decomposeGenotype :: "string \<Rightarrow> FilterError + (int \<times> int) list" where
  "decomposeGenotype genotype =
     (case those (map parseAllele (splitGenotype genotype)) of
        None \<Rightarrow> Inl (MalformedGenotype genotype)
      | Some ks \<Rightarrow> Inr (foldl (\<lambda>m k. increment k m) [] ks))"

definition isHet :: "(int \<times> int) list \<Rightarrow> bool" where
  "isHet genotype \<longleftrightarrow> length genotype > 1"

definition isHom :: "(int \<times> int) list \<Rightarrow> bool" where
  "isHom genotype \<longleftrightarrow> length genotype = 1"

section \<open>Rewriting the genotypes of failing samples\<close>

text \<open>
  Modelled from the spec: \<^verbatim>\<open>VariantFilter::removeFilteredGenotypes\<close> (declared in the
  header only). The samples are visited in the order of \<open>sampleNames\<close>; a sample
  for which \<open>passes\<close> is false has every value of its genotype field \<^verbatim>\<open>GT\<close>
  replaced by the all-missing string of the same ploidy; an evaluation error ends
  the visit and is reported with the record as it then is.
\<close>

definition allMissing :: "string \<Rightarrow> string" where
  "allMissing genotype = join (map (\<lambda>_. ''.'') (splitGenotype genotype)) ''/''"

definition setMissingGenotype :: "Variant \<Rightarrow> string \<Rightarrow> Variant" where
  "setMissingGenotype var name =
     (case samples var name of
        None \<Rightarrow> var
      | Some entry \<Rightarrow>
          (case entry ''GT'' of
             None \<Rightarrow> var
           | Some gts \<Rightarrow>
               var\<lparr>samples := (samples var)(name \<mapsto> entry(''GT'' \<mapsto> map allMissing gts))\<rparr>))"

fun removeFiltered ::
  "(string \<Rightarrow> rat extracted) \<Rightarrow> VariantFilter \<Rightarrow> string list \<Rightarrow> Variant
     \<Rightarrow> FilterError option \<times> Variant" where
  "removeFiltered extract f [] var = (None, var)"
| "removeFiltered extract f (name # names) var =
     (case passes extract f var name of
        (Inl e, var') \<Rightarrow> (Some e, var')
      | (Inr True, var') \<Rightarrow> removeFiltered extract f names var'
      | (Inr False, var') \<Rightarrow> removeFiltered extract f names (setMissingGenotype var' name))"

definition removeFilteredGenotypes ::
  "(string \<Rightarrow> rat extracted) \<Rightarrow> VariantFilter \<Rightarrow> Variant \<Rightarrow> FilterError option \<times> Variant" where
  "removeFilteredGenotypes extract f var = removeFiltered extract f (sampleNames var) var"

section \<open>Scenarios\<close>

text \<open>
  The genotype strings of a locus: a first allele followed by any number of
  (separator, allele) pairs. The ploidy is one more than the number of pairs.
\<close>

fun phased :: "string \<Rightarrow> (char \<times> string) list \<Rightarrow> string" where
  "phased a [] = a"
| "phased a ((s, b) # rest) = a @ s # phased b rest"

text \<open>
  A scenario without numerals: the spec \<^verbatim>\<open>FT = REQ\<close> over a registry that declares
  both fields strings, as the conversion compiles it for samples (\<open>tagFilter\<close>), and
  a record with one alternate allele and two samples, of which the first carries a
  tag other than the one required.
\<close>

definition tagFilter :: VariantFilter where
  "tagFilter =
     \<lparr>spec = ''FT = REQ'',
      tokens = [(plainToken STRING_VARIABLE ''FT'')\<lparr>isVariable := True\<rparr>,
                plainToken EQUAL_OPERATOR ''='',
                (plainToken STRING_VARIABLE ''REQ'')\<lparr>isVariable := True\<rparr>],
      rules = [(plainToken STRING_VARIABLE ''FT'')\<lparr>isVariable := True\<rparr>,
               (plainToken STRING_VARIABLE ''REQ'')\<lparr>isVariable := True\<rparr>,
               plainToken EQUAL_OPERATOR ''=''],
      type' = SAMPLE\<rparr>"

definition tagRecord :: Variant where
  "tagRecord =
     (Variant' [''NA1'', ''NA2''])
       \<lparr>alt := [''G''], format := [''GT'', ''FT'', ''REQ''],
        samples :=
          [''NA1'' \<mapsto> [''GT'' \<mapsto> [''0|1''], ''FT'' \<mapsto> [''q10''], ''REQ'' \<mapsto> [''PASS'']],
           ''NA2'' \<mapsto> [''GT'' \<mapsto> [''1/1''], ''FT'' \<mapsto> [''PASS''], ''REQ'' \<mapsto> [''PASS'']]]\<rparr>"

text \<open>
  The Number token of a lexeme, as the tokenizer builds it when \<open>convert\<close> accepts
  the lexeme with the value \<open>n\<close>.
\<close>

definition numberToken :: "string \<Rightarrow> rat \<Rightarrow> RuleToken" where
  "numberToken lexeme n = (plainToken NUMBER lexeme)\<lparr>number := n\<rparr>"

section \<open>Properties of the token classification and of \<open>priority\<close>\<close>

lemmas classify_defs =
  isOperand_def isOperator_def isLeftParenthesis_def isRightParenthesis_def

lemma operator_not_classified_otherwise:
  "\<not> isOperand t \<Longrightarrow> \<not> isLeftParenthesis t \<Longrightarrow> \<not> isRightParenthesis t \<Longrightarrow> isOperator t"
  by (cases "type t") (simp_all add: classify_defs)

lemma priority_returns_unless_operand:
  "\<not> isOperand t \<Longrightarrow> \<exists>p. priority t = Returns p"
  by (cases "type t") (simp_all add: isOperand_def priority_def)

text \<open>
  The conversion keeps operands off the operator stack, so its calls of \<open>priority\<close>
  always return.
\<close>

lemma popTighter_returns:
  "\<not> isOperand op \<Longrightarrow> \<forall>t \<in> set st. \<not> isOperand t \<Longrightarrow>
   \<exists>st' out'. popTighter op st out = Returns (st', out') \<and> set st' \<subseteq> set st"
proof (induction st arbitrary: out)
  case Nil
  then show ?case by simp
next
  case (Cons t st)
  obtain pt where pt: "priority t = Returns pt"
    using Cons.prems(2) priority_returns_unless_operand by fastforce
  obtain po where po: "priority op = Returns po"
    using Cons.prems(1) priority_returns_unless_operand by blast
  have "\<exists>st' out'. popTighter op st (out @ [t]) = Returns (st', out') \<and> set st' \<subseteq> set st"
    using Cons.IH [of "out @ [t]"] Cons.prems by simp
  then show ?case
    using pt po by auto
qed

lemma popToLeftParenthesis_subset:
  "popToLeftParenthesis st out = Inr (st', out') \<Longrightarrow> set st' \<subseteq> set st"
  by (induction st arbitrary: out) (auto split: if_splits)

lemma toPostfix_returns:
  "\<forall>t \<in> set st. \<not> isOperand t \<Longrightarrow> \<exists>r. toPostfix ts st out = Returns r"
proof (induction ts arbitrary: st out)
  case Nil
  then show ?case by simp
next
  case (Cons t ts)
  show ?case
  proof (cases "isOperand t")
    case True
    then show ?thesis using Cons.IH [OF Cons.prems] by simp
  next
    case operand: False
    show ?thesis
    proof (cases "isLeftParenthesis t")
      case True
      then show ?thesis using operand Cons.IH [of "t # st"] Cons.prems by simp
    next
      case left: False
      show ?thesis
      proof (cases "isRightParenthesis t")
        case True
        show ?thesis
        proof (cases "popToLeftParenthesis st out")
          case (Inl e)
          then show ?thesis using operand left True by simp
        next
          case (Inr p)
          obtain st' out' where p: "p = (st', out')" by (cases p)
          have "\<forall>t \<in> set st'. \<not> isOperand t"
            using popToLeftParenthesis_subset Inr p Cons.prems by blast
          then show ?thesis
            using operand left True Inr p Cons.IH [of st' out'] by simp
        qed
      next
        case right: False
        obtain st' out' where pop: "popTighter t st out = Returns (st', out')"
          and sub: "set st' \<subseteq> set st"
          using popTighter_returns [OF operand Cons.prems] by blast
        have "\<forall>u \<in> set (t # st'). \<not> isOperand u"
          using sub operand Cons.prems by auto
        then show ?thesis
          using operand left right pop Cons.IH [of "t # st'" out'] by simp
      qed
    qed
  qed
qed

lemma compile_returns:
  "\<exists>r. VariantFilter' ex filterspec filtertype variables = Returns r"
proof (cases "tokenizeFilterSpec ex filterspec variables")
  case (Inl e)
  then show ?thesis by (simp add: VariantFilter'_def)
next
  case (Inr ts)
  obtain r where "toPostfix ts [] [] = Returns r"
    using toPostfix_returns [of "[]" ts "[]"] by auto
  then show ?thesis
    using Inr by (cases r) (simp_all add: VariantFilter'_def)
qed

text \<open>
  Claim C1, as stated: every invalid input, also an invalid token type that reaches
  the precedence function, is reported to the caller as an error result, and no
  operation ends the process. The header's \<open>priority\<close> does end it: on the Number
  token of the lexeme \<^verbatim>\<open>1\<close> it takes the \<^verbatim>\<open>default\<close> branch, prints
  \<^verbatim>\<open>invalid token type\<close> and calls \<^verbatim>\<open>exit(1)\<close>.
\<close>

theorem priority_exits_on_number_token:
  "terminatesProcess (priority ((plainToken NUMBER ''1'')\<lparr>number := 1\<rparr>))"
  by (simp add: priority_def plainToken_def)

text \<open>
  Claim C1, amended: \<open>priority\<close> has no error result. It ends the process, with the
  message \<^verbatim>\<open>invalid token type\<close> and exit status 1, exactly when the token is
  one of the five operand kinds, and returns a precedence for every operator and
  parenthesis. The filter compiler never brings an operand to \<open>priority\<close>: for
  every filter spec and registry it returns, with a compiled filter or with an
  error value.
\<close>

theorem priority_exit_exactly_on_operands:
  "terminatesProcess (priority tok) = isOperand tok \<and>
   (priority tok = Exits ''invalid token type'' 1) = isOperand tok \<and>
   (\<exists>p. priority tok = Returns p) = (\<not> isOperand tok) \<and>
   \<not> terminatesProcess (VariantFilter' ex filterspec filtertype variables)"
proof -
  have "terminatesProcess (priority tok) = isOperand tok"
    by (cases "type tok") (simp_all add: priority_def isOperand_def)
  moreover have "(priority tok = Exits ''invalid token type'' 1) = isOperand tok"
    by (cases "type tok") (simp_all add: priority_def isOperand_def)
  moreover have "(\<exists>p. priority tok = Returns p) = (\<not> isOperand tok)"
    by (cases "type tok") (simp_all add: priority_def isOperand_def)
  moreover have "\<not> terminatesProcess (VariantFilter' ex filterspec filtertype variables)"
    using compile_returns [of ex filterspec filtertype variables] by auto
  ultimately show ?thesis by simp
qed

text \<open>
  Claim C2: for every operator token \<open>priority\<close> returns the fixed precedence:
  multiply and divide 8, add and subtract 7, logical not 6, equal, greater-than and
  less-than 5, and 4, or 3, and both parentheses 0. Whatever the other fields of
  the token hold, the type alone decides.
\<close>

theorem priority_fixed_precedence:
  "priority (tok\<lparr>type := MULTIPLY_OPERATOR\<rparr>) = Returns 8 \<and>
   priority (tok\<lparr>type := DIVIDE_OPERATOR\<rparr>) = Returns 8 \<and>
   priority (tok\<lparr>type := ADD_OPERATOR\<rparr>) = Returns 7 \<and>
   priority (tok\<lparr>type := SUBTRACT_OPERATOR\<rparr>) = Returns 7 \<and>
   priority (tok\<lparr>type := NOT_OPERATOR\<rparr>) = Returns 6 \<and>
   priority (tok\<lparr>type := EQUAL_OPERATOR\<rparr>) = Returns 5 \<and>
   priority (tok\<lparr>type := GREATER_THAN_OPERATOR\<rparr>) = Returns 5 \<and>
   priority (tok\<lparr>type := LESS_THAN_OPERATOR\<rparr>) = Returns 5 \<and>
   priority (tok\<lparr>type := AND_OPERATOR\<rparr>) = Returns 4 \<and>
   priority (tok\<lparr>type := OR_OPERATOR\<rparr>) = Returns 3 \<and>
   priority (tok\<lparr>type := LEFT_PARENTHESIS\<rparr>) = Returns 0 \<and>
   priority (tok\<lparr>type := RIGHT_PARENTHESIS\<rparr>) = Returns 0"
  by (simp add: priority_def)

text \<open>
  Claim C4: \<open>isRightAssociative\<close> holds for the logical-not operator and the left
  parenthesis and for no other token; \<open>isLeftAssociative\<close> holds for the fifteen
  other token types, the right parenthesis among them; the two predicates are
  complements.
\<close>

theorem associativity_classification:
  "isRightAssociative tok = (type tok \<in> {NOT_OPERATOR, LEFT_PARENTHESIS}) \<and>
   isLeftAssociative tok =
     (type tok \<in> {OPERAND, NUMBER, BOOLEAN_VARIABLE, NUMERIC_VARIABLE, STRING_VARIABLE,
        AND_OPERATOR, OR_OPERATOR, ADD_OPERATOR, SUBTRACT_OPERATOR, MULTIPLY_OPERATOR,
        DIVIDE_OPERATOR, EQUAL_OPERATOR, GREATER_THAN_OPERATOR, LESS_THAN_OPERATOR,
        RIGHT_PARENTHESIS}) \<and>
   isLeftAssociative tok = (\<not> isRightAssociative tok)"
  by (cases "type tok") (simp_all add: isRightAssociative_def isLeftAssociative_def)

text \<open>
  Claim C10: every token is classified by exactly one of \<open>isOperand\<close>,
  \<open>isOperator\<close>, \<open>isLeftParenthesis\<close> and \<open>isRightParenthesis\<close>: the five operand
  kinds by \<open>isOperand\<close>, the ten operators by \<open>isOperator\<close>, each parenthesis by its
  own predicate. The last conjunct counts the predicates that hold of the token.
\<close>

theorem token_classified_exactly_once:
  "isOperand tok =
     (type tok \<in> {OPERAND, NUMBER, BOOLEAN_VARIABLE, NUMERIC_VARIABLE, STRING_VARIABLE}) \<and>
   isOperator tok =
     (type tok \<in> {AND_OPERATOR, OR_OPERATOR, ADD_OPERATOR, SUBTRACT_OPERATOR,
        MULTIPLY_OPERATOR, DIVIDE_OPERATOR, NOT_OPERATOR, EQUAL_OPERATOR,
        GREATER_THAN_OPERATOR, LESS_THAN_OPERATOR}) \<and>
   isLeftParenthesis tok = (type tok = LEFT_PARENTHESIS) \<and>
   isRightParenthesis tok = (type tok = RIGHT_PARENTHESIS) \<and>
   length (filter (\<lambda>p. p tok) [isOperand, isOperator, isLeftParenthesis, isRightParenthesis]) = 1"
  by (cases "type tok") (simp_all add: classify_defs)

section \<open>Compiling and evaluating filters\<close>

lemmas lex_defs = tokenizeFilterSpec_def RuleToken'_def operandToken_def convert_def
  extractNumber_def tellgAfter_def overflowsDouble_def DBL_MAX_def isSpace_def isDigit_def digitValue_def digitsValue_def flush_def
  isOperatorChar_def isParanChar_def plainToken_def variableType_def Let_def

lemmas parse_defs = VariantFilter'_def classify_defs priority_def isLeftAssociative_def
  isRightAssociative_def

lemmas eval_defs = resolve_def applyBinary_def verdict_def passes_def evaluate_def
  getValueBool_def getInfoValueBool_def INDEX_NONE_def

text \<open>
  Claim C3 says that compiling a filter spec and evaluating the postfix sequence
  honours precedence and parentheses: \<^verbatim>\<open>1 + 2 * 3\<close> gives 7, \<^verbatim>\<open>(1 + 2) * 3\<close> gives
  9, and \<^verbatim>\<open>A & B | C\<close> with A false and B and C true gives true. On the code the
  two arithmetic specs do not compile: the tokenizer asks \<open>convert\<close> whether the
  lexeme \<^verbatim>\<open>1\<close> is a number, and \<open>convert\<close> rejects it, as it rejects every
  numeral. The conversion and the evaluator are not at fault: on the token
  sequences of the two specs they give 7 and 9, and the third spec, which has no
  numeral, compiles and passes.
\<close>

theorem numeral_specs_do_not_compile:
  "VariantFilter' extractNumber ''1 + 2 * 3'' RECORD Map.empty =
     Returns (Inl (UnrecognizedOperand ''1'')) \<and>
   VariantFilter' extractNumber ''(1 + 2) * 3'' RECORD Map.empty =
     Returns (Inl (UnrecognizedOperand ''1'')) \<and>
   (case toPostfix
           [numberToken ''1'' 1, plainToken ADD_OPERATOR ''+'', numberToken ''2'' 2,
            plainToken MULTIPLY_OPERATOR ''*'', numberToken ''3'' 3] [] [] of
      Returns (Inr rs) \<Rightarrow>
        evalRules (resolve extractNumber var None INDEX_NONE) rs [] = Inr (Numeric 7)
    | _ \<Rightarrow> False) \<and>
   (case toPostfix
           [plainToken LEFT_PARENTHESIS ''('', numberToken ''1'' 1,
            plainToken ADD_OPERATOR ''+'', numberToken ''2'' 2,
            plainToken RIGHT_PARENTHESIS '')'', plainToken MULTIPLY_OPERATOR ''*'',
            numberToken ''3'' 3] [] [] of
      Returns (Inr rs) \<Rightarrow>
        evalRules (resolve extractNumber var None INDEX_NONE) rs [] = Inr (Numeric 9)
    | _ \<Rightarrow> False) \<and>
   (case VariantFilter' extractNumber ''A & B | C'' RECORD
           [''A'' \<mapsto> FIELD_BOOL, ''B'' \<mapsto> FIELD_BOOL, ''C'' \<mapsto> FIELD_BOOL] of
      Returns (Inr f) \<Rightarrow>
        fst (passes extractNumber f
          (var\<lparr>infoFlags := [''A'' \<mapsto> False, ''B'' \<mapsto> True, ''C'' \<mapsto> True]\<rparr>) sample) = Inr True
    | _ \<Rightarrow> False)"
proof -
  have sum_first: "VariantFilter' extractNumber ''1 + 2 * 3'' RECORD Map.empty =
      Returns (Inl (UnrecognizedOperand ''1''))"
    by (simp add: lex_defs parse_defs)
  have grouped: "VariantFilter' extractNumber ''(1 + 2) * 3'' RECORD Map.empty =
      Returns (Inl (UnrecognizedOperand ''1''))"
    by (simp add: lex_defs parse_defs)
  have sum_tokens:
    "(case toPostfix
           [numberToken ''1'' 1, plainToken ADD_OPERATOR ''+'', numberToken ''2'' 2,
            plainToken MULTIPLY_OPERATOR ''*'', numberToken ''3'' 3] [] [] of
      Returns (Inr rs) \<Rightarrow>
        evalRules (resolve extractNumber var None INDEX_NONE) rs [] = Inr (Numeric 7)
    | _ \<Rightarrow> False)"
    by (simp add: numberToken_def plainToken_def parse_defs eval_defs)
  have grouped_tokens:
    "(case toPostfix
           [plainToken LEFT_PARENTHESIS ''('', numberToken ''1'' 1,
            plainToken ADD_OPERATOR ''+'', numberToken ''2'' 2,
            plainToken RIGHT_PARENTHESIS '')'', plainToken MULTIPLY_OPERATOR ''*'',
            numberToken ''3'' 3] [] [] of
      Returns (Inr rs) \<Rightarrow>
        evalRules (resolve extractNumber var None INDEX_NONE) rs [] = Inr (Numeric 9)
    | _ \<Rightarrow> False)"
    by (simp add: numberToken_def plainToken_def parse_defs eval_defs)
  have logical:
    "(case VariantFilter' extractNumber ''A & B | C'' RECORD
             [''A'' \<mapsto> FIELD_BOOL, ''B'' \<mapsto> FIELD_BOOL, ''C'' \<mapsto> FIELD_BOOL] of
        Returns (Inr f) \<Rightarrow>
          fst (passes extractNumber f
            (var\<lparr>infoFlags := [''A'' \<mapsto> False, ''B'' \<mapsto> True, ''C'' \<mapsto> True]\<rparr>) sample) = Inr True
      | _ \<Rightarrow> False)"
    by (simp add: lex_defs parse_defs eval_defs)
  from sum_first grouped sum_tokens grouped_tokens logical show ?thesis by blast
qed

section \<open>Genotype decomposition\<close>

lemma splitOn_not_empty: "splitOn sep cs \<noteq> []"
  by (induction cs) (auto split: list.splits)

lemma splitOn_separated:
  "\<forall>c \<in> set a. \<not> sep c \<Longrightarrow> sep s \<Longrightarrow> splitOn sep (a @ s # cs) = a # splitOn sep cs"
  by (induction a) (auto split: list.splits)

lemma splitOn_plain: "\<forall>c \<in> set a. \<not> sep c \<Longrightarrow> splitOn sep a = [a]"
  by (induction a) (auto split: list.splits)

lemma splitOn_phased:
  "\<forall>c \<in> set a. \<not> sep c \<Longrightarrow>
   \<forall>(s, b) \<in> set rest. sep s \<and> (\<forall>c \<in> set b. \<not> sep c) \<Longrightarrow>
   splitOn sep (phased a rest) = a # map snd rest"
proof (induction rest arbitrary: a)
  case Nil
  then show ?case by (simp add: splitOn_plain)
next
  case (Cons p rest)
  obtain s b where p: "p = (s, b)" by (cases p)
  have "splitOn sep (phased b rest) = b # map snd rest"
    using Cons.IH [of b] Cons.prems(2) p by simp
  then show ?case
    using Cons.prems p by (simp add: splitOn_separated)
qed

lemma allele_has_no_separator:
  "e \<in> {''0'', ''1'', ''2'', ''.''} \<Longrightarrow> \<forall>c \<in> set e. \<not> isGenotypeSeparator c"
  by (auto simp: isGenotypeSeparator_def)

lemma parseAllele_known:
  "parseAllele ''0'' = Some 0" "parseAllele ''1'' = Some 1" "parseAllele ''2'' = Some 2"
  "parseAllele ''.'' = Some NULL_ALLELE"
  by (simp_all add: parseAllele_def isDigit_def digitsValue_def digitValue_def)

lemma parseAllele_valid:
  "e \<in> {''0'', ''1'', ''2'', ''.''} \<Longrightarrow> \<exists>k. parseAllele e = Some k"
  using parseAllele_known by auto

lemma those_parseAllele:
  "set es \<subseteq> {''0'', ''1'', ''2'', ''.''} \<Longrightarrow>
   \<exists>ks. those (map parseAllele es) = Some ks \<and> length ks = length es \<and>
     Some ` set ks = parseAllele ` set es"
proof (induction es)
  case Nil
  then show ?case by simp
next
  case (Cons e es)
  obtain k where k: "parseAllele e = Some k"
    using parseAllele_valid [of e] Cons.prems by auto
  obtain ks where ks: "those (map parseAllele es) = Some ks" "length ks = length es"
    "Some ` set ks = parseAllele ` set es"
    using Cons by auto
  show ?case using k ks by auto
qed

lemma increment_sum: "sum_list (map snd (increment k m)) = sum_list (map snd m) + 1"
  by (induction k m rule: increment.induct) auto

lemma increment_keys: "fst ` set (increment k m) = insert k (fst ` set m)"
  by (induction k m rule: increment.induct) auto

lemma increment_sorted:
  "sorted_wrt (<) (map fst m) \<Longrightarrow> sorted_wrt (<) (map fst (increment k m))"
proof (induction k m rule: increment.induct)
  case (1 k)
  then show ?case by simp
next
  case (2 k k' c m)
  show ?case
  proof (cases "k = k' \<or> k < k'")
    case True
    then show ?thesis using "2.prems" by auto
  next
    case False
    have "sorted_wrt (<) (map fst (increment k m))"
      using "2.IH" "2.prems" False by simp
    moreover have "\<forall>x \<in> fst ` set (increment k m). k' < x"
      using "2.prems" False by (auto simp: increment_keys)
    ultimately show ?thesis using False by auto
  qed
qed

lemma increment_not_empty: "increment k m \<noteq> []"
  by (induction k m rule: increment.induct) auto

lemma counted:
  "sum_list (map snd (foldl (\<lambda>m k. increment k m) m ks)) = sum_list (map snd m) + int (length ks) \<and>
   fst ` set (foldl (\<lambda>m k. increment k m) m ks) = set ks \<union> fst ` set m \<and>
   (sorted_wrt (<) (map fst m) \<longrightarrow> sorted_wrt (<) (map fst (foldl (\<lambda>m k. increment k m) m ks)))"
  by (induction ks arbitrary: m) (auto simp: increment_sum increment_keys increment_sorted)

text \<open>
  Claim C5: for every valid genotype string over the alleles 0, 1, 2 and the missing
  marker (of ploidy 1 to 3, and of any larger ploidy too), \<open>decomposeGenotype\<close>
  returns a mapping whose counts sum to the ploidy, and exactly one of \<open>isHet\<close> and
  \<open>isHom\<close> holds of it. The keys of the mapping are distinct (strictly increasing)
  and are the indices of the alleles in the string; the missing marker is counted
  under \<open>NULL_ALLELE\<close>, which is negative and so differs from every allele index.
\<close>

theorem decomposition_counts_ploidy:
  assumes alleles: "set (a # map snd rest) \<subseteq> {''0'', ''1'', ''2'', ''.''}"
    and separators: "\<forall>s \<in> fst ` set rest. s = CHR ''/'' \<or> s = CHR ''|''"
  shows "\<exists>m. decomposeGenotype (phased a rest) = Inr m \<and>
      sum_list (map snd m) = int (length (a # map snd rest)) \<and>
      isHet m \<noteq> isHom m \<and>
      sorted_wrt (<) (map fst m) \<and>
      Some ` fst ` set m = parseAllele ` set (a # map snd rest) \<and>
      parseAllele ''.'' = Some NULL_ALLELE \<and> NULL_ALLELE < 0"
proof -
  let ?es = "a # map snd rest"
  have "\<forall>c \<in> set a. \<not> isGenotypeSeparator c"
    using alleles allele_has_no_separator [of a] by simp
  moreover have "\<forall>(s, b) \<in> set rest. isGenotypeSeparator s \<and> (\<forall>c \<in> set b. \<not> isGenotypeSeparator c)"
  proof (clarify, intro conjI)
    fix s b assume sb: "(s, b) \<in> set rest"
    then show "isGenotypeSeparator s"
      using separators by (force simp: isGenotypeSeparator_def)
    have "b \<in> {''0'', ''1'', ''2'', ''.''}" using sb alleles by force
    then show "\<forall>c \<in> set b. \<not> isGenotypeSeparator c"
      by (rule allele_has_no_separator)
  qed
  ultimately have split: "splitGenotype (phased a rest) = ?es"
    unfolding splitGenotype_def by (rule splitOn_phased)
  obtain ks where ks: "those (map parseAllele ?es) = Some ks" "length ks = length ?es"
    "Some ` set ks = parseAllele ` set ?es"
    using those_parseAllele [OF alleles] by blast
  let ?m = "foldl (\<lambda>m k. increment k m) [] ks"
  have dec: "decomposeGenotype (phased a rest) = Inr ?m"
    using split ks(1) by (simp add: decomposeGenotype_def)
  have total: "sum_list (map snd ?m) = int (length ?es)"
    using counted [of "[]" ks] ks(2) by simp
  have keys: "fst ` set ?m = set ks"
    using counted [of "[]" ks] by simp
  have sorted: "sorted_wrt (<) (map fst ?m)"
    using counted [of "[]" ks] by simp
  have "ks \<noteq> []" using ks(2) by auto
  then have "?m \<noteq> []" using keys by auto
  then have zyg: "isHet ?m \<noteq> isHom ?m"
    by (cases ?m) (auto simp: isHet_def isHom_def)
  have "Some ` fst ` set ?m = parseAllele ` set ?es"
    using keys ks(3) by simp
  moreover have "parseAllele ''.'' = Some NULL_ALLELE \<and> NULL_ALLELE < 0"
    by (simp add: parseAllele_known NULL_ALLELE_def)
  ultimately show ?thesis
    using dec total zyg sorted by blast
qed

theorem decomposition_counts_ploidy_witness:
  "decomposeGenotype ''./1|1'' = Inr [(NULL_ALLELE, 1), (1, 2)] \<and>
   isHet [(NULL_ALLELE, 1), (1, 2)] \<and> \<not> isHom [(NULL_ALLELE, 1), (1, 2)] \<and>
   (\<exists>m. decomposeGenotype (phased ''.'' [(CHR ''/'', ''1''), (CHR ''|'', ''1'')]) = Inr m \<and>
      sum_list (map snd m) = 3 \<and> isHet m \<noteq> isHom m)"
proof -
  have a: "set (''.'' # map snd [(CHR ''/'', ''1''), (CHR ''|'', ''1'')]) \<subseteq> {''0'', ''1'', ''2'', ''.''}"
    by simp
  have s: "\<forall>s \<in> fst ` set [(CHR ''/'', ''1''), (CHR ''|'', ''1'')]. s = CHR ''/'' \<or> s = CHR ''|''"
    by simp
  have "decomposeGenotype ''./1|1'' = Inr [(NULL_ALLELE, 1), (1, 2)]"
    by (simp add: decomposeGenotype_def splitGenotype_def isGenotypeSeparator_def
        parseAllele_def isDigit_def digitsValue_def digitValue_def NULL_ALLELE_def)
  moreover have "isHet [(NULL_ALLELE, 1), (1, 2)] \<and> \<not> isHom [(NULL_ALLELE, 1), (1, 2)]"
    by (simp add: isHet_def isHom_def)
  ultimately show ?thesis
    using decomposition_counts_ploidy [OF a s] by auto
qed

section \<open>Numerals and \<open>convert\<close>\<close>

lemma tellgAfter_short: "tellgAfter s rest \<noteq> int (length s)"
  by (simp add: tellgAfter_def)

lemma extractNumber_position:
  "extractNumber s = Extracted v pos \<Longrightarrow> pos \<noteq> int (length s)"
  by (auto simp: extractNumber_def Let_def tellgAfter_short split: if_splits)

lemma convert_never_accepts: "\<not> fst (convert extractNumber s r)"
proof (cases "extractNumber s")
  case (Failed stored)
  then show ?thesis by (cases stored) (simp_all add: convert_def)
next
  case (Extracted v pos)
  then show ?thesis
    using extractNumber_position [OF Extracted] by (simp add: convert_def)
qed

text \<open>
  Claim C6 says that \<open>convert\<close> returns true exactly when the whole string is
  consumed by a successful conversion, so that a numeral outside the registry
  becomes a Number token. The header's \<open>convert\<close> compares \<^verbatim>\<open>tellg()\<close> with the
  size of the string after the read; a read that has consumed the whole numeral has
  met the end of the input, and \<^verbatim>\<open>tellg()\<close> then answers \<open>- 1\<close>. So for the
  string \<^verbatim>\<open>0.5\<close> the extraction succeeds and stores one half, \<open>convert\<close> returns
  false, and the lexeme is an unrecognized operand; and \<open>convert\<close> returns false on
  every string.
\<close>

theorem convert_rejects_every_numeral:
  "extractNumber ''0.5'' = Extracted (1 / 2) (- 1) \<and>
   convert extractNumber ''0.5'' 0 = (False, 1 / 2) \<and>
   RuleToken' extractNumber ''0.5'' Map.empty = Inl (UnrecognizedOperand ''0.5'') \<and>
   fst (convert extractNumber s r) = False"
proof -
  have "extractNumber ''0.5'' = Extracted (1 / 2) (- 1)"
    by (simp add: lex_defs)
  moreover have "convert extractNumber ''0.5'' 0 = (False, 1 / 2)"
    by (simp add: lex_defs)
  moreover have "RuleToken' extractNumber ''0.5'' Map.empty = Inl (UnrecognizedOperand ''0.5'')"
    by (simp add: lex_defs)
  ultimately show ?thesis
    using convert_never_accepts [of s r] by simp
qed

section \<open>Evaluating a filter on a record\<close>

lemma evaluate_frame: "snd (evaluate ex f var sample index) = var"
  by (cases "type' f") (simp_all add: evaluate_def)

lemma passesAllele_frame: "snd (passesAllele ex f var sample index) = var"
  by (simp add: passesAllele_def evaluate_frame)

lemma passesAllele_pair:
  "passesAllele ex f var sample index = (fst (passesAllele ex f var sample index), var)"
  using passesAllele_frame [of ex f var sample index]
  by (cases "passesAllele ex f var sample index") simp

lemma allAllelesPass_frame: "snd (allAllelesPass ex f sample is var) = var"
proof (induction "is")
  case Nil
  then show ?case by simp
next
  case (Cons i "is")
  show ?case
  proof (cases "fst (passesAllele ex f var sample (int i)) = Inr True")
    case True
    then have "passesAllele ex f var sample (int i) = (Inr True, var)"
      using passesAllele_pair [of ex f var sample "int i"] by simp
    then show ?thesis using Cons.IH by simp
  next
    case False
    obtain r where r: "passesAllele ex f var sample (int i) = (r, var)" "r \<noteq> Inr True"
      using passesAllele_pair [of ex f var sample "int i"] False by auto
    then show ?thesis
      by (cases r) (auto split: bool.splits)
  qed
qed

lemma passes_frame: "snd (passes ex f var sample) = var"
  by (cases "type' f") (simp_all add: passes_def evaluate_frame allAllelesPass_frame)

text \<open>
  Claim C7 says that for the field AF with the values 0.1 and 0.9 for a sample of a
  record with two alternate alleles, the filter \<^verbatim>\<open>AF > 0.5\<close> is false in the
  all-alleles shape of \<open>passes\<close> and true at allele index 1. On the code the spec
  does not compile, because \<open>convert\<close> rejects the lexeme \<^verbatim>\<open>0.5\<close>. The stored
  values are not read as numbers either: the filter built by hand from its three
  tokens ends in an error in the all-alleles shape, and the value at index 1 is
  an error too, so neither call shape comes to a verdict.
\<close>

theorem allele_frequency_filter_does_not_compile:
  "VariantFilter' extractNumber ''AF > 0.5'' SAMPLE [''AF'' \<mapsto> FIELD_FLOAT] =
     Returns (Inl (UnrecognizedOperand ''0.5'')) \<and>
   fst (passes extractNumber
     \<lparr>spec = ''AF > 0.5'', tokens = [],
      rules = [(plainToken NUMERIC_VARIABLE ''AF'')\<lparr>isVariable := True\<rparr>,
               numberToken ''0.5'' (1 / 2), plainToken GREATER_THAN_OPERATOR ''>''],
      type' = SAMPLE\<rparr>
     (rcd\<lparr>alt := [''G'', ''T''],
          samples := [''NA1'' \<mapsto> [''AF'' \<mapsto> [''0.1'', ''0.9'']]]\<rparr>) ''NA1'') =
     Inl (BadValue ''0.1'') \<and>
   getValueFloat extractNumber
     (rcd\<lparr>alt := [''G'', ''T''],
          samples := [''NA1'' \<mapsto> [''AF'' \<mapsto> [''0.1'', ''0.9'']]]\<rparr>)
     ''AF'' (Some ''NA1'') 1 = Inl (BadValue ''0.9'')"
proof -
  have compiled: "VariantFilter' extractNumber ''AF > 0.5'' SAMPLE [''AF'' \<mapsto> FIELD_FLOAT] =
      Returns (Inl (UnrecognizedOperand ''0.5''))"
    by (simp add: lex_defs parse_defs)
  have all_alleles: "fst (passes extractNumber
     \<lparr>spec = ''AF > 0.5'', tokens = [],
      rules = [(plainToken NUMERIC_VARIABLE ''AF'')\<lparr>isVariable := True\<rparr>,
               numberToken ''0.5'' (1 / 2), plainToken GREATER_THAN_OPERATOR ''>''],
      type' = SAMPLE\<rparr>
     (rcd\<lparr>alt := [''G'', ''T''],
          samples := [''NA1'' \<mapsto> [''AF'' \<mapsto> [''0.1'', ''0.9'']]]\<rparr>) ''NA1'') =
     Inl (BadValue ''0.1'')"
    by (simp add: lex_defs classify_defs eval_defs numberToken_def passesAllele_def
        getValueFloat_def getValueString_def getSampleValueString_def valueAt_def upt_rec)
  have one_allele: "getValueFloat extractNumber
     (rcd\<lparr>alt := [''G'', ''T''],
          samples := [''NA1'' \<mapsto> [''AF'' \<mapsto> [''0.1'', ''0.9'']]]\<rparr>)
     ''AF'' (Some ''NA1'') 1 = Inl (BadValue ''0.9'')"
    by (simp add: lex_defs getValueFloat_def getValueString_def getSampleValueString_def
        valueAt_def INDEX_NONE_def)
  from compiled all_alleles one_allele show ?thesis by blast
qed

section \<open>Removing filtered genotypes\<close>

lemma passes_pair: "passes ex f var name = (fst (passes ex f var name), var)"
  using passes_frame [of ex f var name] by (cases "passes ex f var name") simp

lemma join_replicate: "join (replicate (Suc n) x) [s] = phased x (replicate n (s, x))"
  by (induction n) simp_all

lemma allMissing_shape:
  "\<exists>n. allMissing g = phased ''.'' (replicate n (CHR ''/'', ''.'')) \<and>
       Suc n = length (splitGenotype g)"
proof -
  obtain n where n: "length (splitGenotype g) = Suc n"
    using splitOn_not_empty [of isGenotypeSeparator g]
    by (cases "splitGenotype g") (auto simp: splitGenotype_def)
  have "map (\<lambda>_. ''.'') (splitGenotype g) = replicate (Suc n) ''.''"
    using n by (simp add: map_replicate_const)
  then show ?thesis
    using n join_replicate [of n "''.''" "CHR ''/''"] by (auto simp: allMissing_def)
qed

lemma splitGenotype_all_missing:
  "splitGenotype (phased ''.'' (replicate n (CHR ''/'', ''.''))) = replicate (Suc n) ''.''"
proof -
  have "splitOn isGenotypeSeparator (phased ''.'' (replicate n (CHR ''/'', ''.''))) =
      ''.'' # map snd (replicate n (CHR ''/'', ''.''))"
    by (rule splitOn_phased) (auto simp: isGenotypeSeparator_def)
  then show ?thesis by (simp add: splitGenotype_def)
qed

lemma allMissing_ploidy: "length (splitGenotype (allMissing g)) = length (splitGenotype g)"
  using allMissing_shape [of g] splitGenotype_all_missing by auto

lemma allMissing_idem: "allMissing (allMissing g) = allMissing g"
proof -
  obtain n where n: "allMissing g = phased ''.'' (replicate n (CHR ''/'', ''.''))"
    using allMissing_shape [of g] by blast
  have "allMissing (allMissing g) = join (replicate (Suc n) ''.'') ''/''"
    using n splitGenotype_all_missing [of n] by (simp add: allMissing_def map_replicate_const)
  then show ?thesis
    using n join_replicate [of n "''.''" "CHR ''/''"] by simp
qed

lemma setMissingGenotype_idem:
  "setMissingGenotype (setMissingGenotype var n) n = setMissingGenotype var n"
  by (auto simp: setMissingGenotype_def allMissing_idem comp_def split: option.splits)

lemma setMissingGenotype_commute:
  "m \<noteq> n \<Longrightarrow>
   setMissingGenotype (setMissingGenotype var m) n = setMissingGenotype (setMissingGenotype var n) m"
  by (auto simp: setMissingGenotype_def fun_upd_twist split: option.splits)

lemma setMissingGenotype_other:
  "m \<noteq> n \<Longrightarrow> samples (setMissingGenotype var m) n = samples var n"
  by (auto simp: setMissingGenotype_def split: option.splits)

lemma setMissingGenotype_rest:
  "alt (setMissingGenotype var m) = alt var \<and>
   info (setMissingGenotype var m) = info var \<and>
   infoFlags (setMissingGenotype var m) = infoFlags var"
  by (auto simp: setMissingGenotype_def split: option.splits)

lemma accessors_local:
  assumes "info v' = info v" and "infoFlags v' = infoFlags v"
    and "samples v' n = samples v n"
  shows "getValueString v' key (Some n) index = getValueString v key (Some n) index"
    and "getValueString v' key None index = getValueString v key None index"
    and "getValueBool v' key (Some n) index = getValueBool v key (Some n) index"
    and "getValueBool v' key None index = getValueBool v key None index"
    and "getValueFloat ex v' key (Some n) index = getValueFloat ex v key (Some n) index"
    and "getValueFloat ex v' key None index = getValueFloat ex v key None index"
  using assms
  by (simp_all add: getValueFloat_def getValueString_def getValueBool_def
      getInfoValueString_def getSampleValueString_def getInfoValueBool_def
      getSampleValueBool_def)

lemma resolve_local:
  assumes "info v' = info v" and "infoFlags v' = infoFlags v"
    and "samples v' n = samples v n"
  shows "resolve ex v' (Some n) index = resolve ex v (Some n) index"
    and "resolve ex v' None index = resolve ex v None index"
proof -
  show "resolve ex v' (Some n) index = resolve ex v (Some n) index"
  proof (rule ext)
    fix t
    show "resolve ex v' (Some n) index t = resolve ex v (Some n) index t"
      by (cases "type t") (simp_all add: resolve_def accessors_local [OF assms])
  qed
  show "resolve ex v' None index = resolve ex v None index"
  proof (rule ext)
    fix t
    show "resolve ex v' None index t = resolve ex v None index t"
      by (cases "type t") (simp_all add: resolve_def accessors_local [OF assms])
  qed
qed

lemma allAllelesPass_local:
  assumes "\<And>i. fst (passesAllele ex f v' n i) = fst (passesAllele ex f v n i)"
  shows "fst (allAllelesPass ex f n is v') = fst (allAllelesPass ex f n is v)"
proof (induction "is")
  case Nil
  then show ?case by simp
next
  case (Cons i "is")
  have a: "passesAllele ex f v' n (int i) = (fst (passesAllele ex f v n (int i)), v')"
    using passesAllele_pair [of ex f v' n "int i"] assms by simp
  have b: "passesAllele ex f v n (int i) = (fst (passesAllele ex f v n (int i)), v)"
    by (rule passesAllele_pair)
  show ?case
  proof (cases "fst (passesAllele ex f v n (int i))")
    case (Inl e)
    then show ?thesis using a b by simp
  next
    case (Inr t)
    then show ?thesis using a b Cons.IH by (cases t) simp_all
  qed
qed

lemma passes_local:
  assumes "alt v' = alt v" and "info v' = info v" and "infoFlags v' = infoFlags v"
    and "samples v' n = samples v n"
  shows "fst (passes ex f v' n) = fst (passes ex f v n)"
proof -
  have "fst (passesAllele ex f v' n i) = fst (passesAllele ex f v n i)" for i
    using resolve_local [OF assms(2,3,4)]
    by (cases "type' f") (simp_all add: passesAllele_def evaluate_def)
  then have "fst (allAllelesPass ex f n is v') = fst (allAllelesPass ex f n is v)" for "is"
    by (rule allAllelesPass_local)
  moreover have "fst (evaluate ex f v' n i) = fst (evaluate ex f v n i)" for i
    using resolve_local [OF assms(2,3,4)]
    by (cases "type' f") (simp_all add: evaluate_def)
  ultimately show ?thesis
    using assms(1) by (cases "type' f") (simp_all add: passes_def)
qed

lemma passes_after_other:
  "m \<noteq> n \<Longrightarrow> fst (passes ex f (setMissingGenotype v m) n) = fst (passes ex f v n)"
  using setMissingGenotype_rest [of v m] setMissingGenotype_other [of m n v]
  by (intro passes_local) simp_all

lemma removeFiltered_invariant:
  assumes step: "\<And>u m. I u \<Longrightarrow> fst (passes ex f u m) = Inr False \<Longrightarrow> I (setMissingGenotype u m)"
  shows "I v \<Longrightarrow> I (snd (removeFiltered ex f names v))"
proof (induction names arbitrary: v)
  case Nil
  then show ?case by simp
next
  case (Cons n names)
  have p: "passes ex f v n = (fst (passes ex f v n), v)" by (rule passes_pair)
  show ?case
  proof (cases "fst (passes ex f v n)")
    case (Inl e)
    then show ?thesis using p Cons.prems by simp
  next
    case (Inr t)
    show ?thesis
    proof (cases t)
      case True
      then show ?thesis using p Inr Cons by simp
    next
      case False
      then have "I (setMissingGenotype v n)" using step Cons.prems Inr by simp
      then show ?thesis using p Inr False Cons.IH by simp
    qed
  qed
qed

lemma still_passes:
  assumes "fst (passes ex f v n) = Inr True"
  shows "fst (passes ex f (snd (removeFiltered ex f names v)) n) = Inr True"
proof (rule removeFiltered_invariant [where I = "\<lambda>u. fst (passes ex f u n) = Inr True"])
  fix u m
  assume u: "fst (passes ex f u n) = Inr True" and m: "fst (passes ex f u m) = Inr False"
  then have "m \<noteq> n" by auto
  then show "fst (passes ex f (setMissingGenotype u m) n) = Inr True"
    using u by (simp add: passes_after_other)
qed (rule assms)

lemma stays_missing:
  assumes "setMissingGenotype v n = v"
  shows "setMissingGenotype (snd (removeFiltered ex f names v)) n = snd (removeFiltered ex f names v)"
proof (rule removeFiltered_invariant [where I = "\<lambda>u. setMissingGenotype u n = u"])
  fix u m
  assume u: "setMissingGenotype u n = u"
  show "setMissingGenotype (setMissingGenotype u m) n = setMissingGenotype u m"
  proof (cases "m = n")
    case True
    then show ?thesis by (simp add: setMissingGenotype_idem)
  next
    case False
    then show ?thesis using u setMissingGenotype_commute [of m n u] by simp
  qed
qed (rule assms)

lemma removeFiltered_settled:
  "snd (removeFiltered ex f names (snd (removeFiltered ex f names v))) =
   snd (removeFiltered ex f names v)"
proof (induction names arbitrary: v)
  case Nil
  then show ?case by simp
next
  case (Cons n names)
  have p: "passes ex f v n = (fst (passes ex f v n), v)" by (rule passes_pair)
  show ?case
  proof (cases "fst (passes ex f v n)")
    case (Inl e)
    then show ?thesis using p by simp
  next
    case (Inr t)
    show ?thesis
    proof (cases t)
      case True
      let ?v1 = "snd (removeFiltered ex f names v)"
      have first: "snd (removeFiltered ex f (n # names) v) = ?v1"
        using p Inr True by simp
      have "fst (passes ex f ?v1 n) = Inr True"
        using Inr True by (simp add: still_passes)
      then have "passes ex f ?v1 n = (Inr True, ?v1)"
        using passes_pair [of ex f ?v1 n] by simp
      then have "snd (removeFiltered ex f (n # names) ?v1) = snd (removeFiltered ex f names ?v1)"
        by simp
      then show ?thesis using first Cons.IH by simp
    next
      case False
      let ?v' = "setMissingGenotype v n"
      let ?v1 = "snd (removeFiltered ex f names ?v')"
      have first: "snd (removeFiltered ex f (n # names) v) = ?v1"
        using p Inr False by simp
      have settled: "setMissingGenotype ?v1 n = ?v1"
        by (rule stays_missing) (rule setMissingGenotype_idem)
      have again: "snd (removeFiltered ex f names ?v1) = ?v1"
        by (rule Cons.IH)
      have q: "passes ex f ?v1 n = (fst (passes ex f ?v1 n), ?v1)" by (rule passes_pair)
      have "snd (removeFiltered ex f (n # names) ?v1) = ?v1"
      proof (cases "fst (passes ex f ?v1 n)")
        case (Inl e)
        then show ?thesis using q by simp
      next
        case (Inr t')
        then show ?thesis using q settled again by (cases t') simp_all
      qed
      then show ?thesis using first by simp
    qed
  qed
qed

lemma removeFiltered_sampleNames:
  "sampleNames (snd (removeFiltered ex f names v)) = sampleNames v"
  by (rule removeFiltered_invariant [where I = "\<lambda>u. sampleNames u = sampleNames v"])
    (auto simp: setMissingGenotype_def split: option.splits)

lemma tagFilter_compiled:
  "VariantFilter' ex ''FT = REQ'' SAMPLE [''FT'' \<mapsto> FIELD_STRING, ''REQ'' \<mapsto> FIELD_STRING] =
   Returns (Inr tagFilter)"
  by (simp add: tokenizeFilterSpec_def RuleToken'_def operandToken_def flush_def isSpace_def
      isOperatorChar_def isParanChar_def plainToken_def variableType_def parse_defs
      tagFilter_def)

lemmas access_defs = getValueFloat_def getValueString_def getSampleValueString_def
  valueAt_def passesAllele_def

lemma tag_verdicts:
  "fst (passes ex tagFilter tagRecord ''NA1'') = Inr False"
  "fst (passes ex tagFilter tagRecord ''NA2'') = Inr True"
  by (simp_all add: tagFilter_def tagRecord_def Variant'_def plainToken_def classify_defs
      eval_defs access_defs)

lemma tag_scrubbed:
  "snd (removeFilteredGenotypes ex tagFilter tagRecord) =
   tagRecord\<lparr>samples :=
     [''NA1'' \<mapsto> [''GT'' \<mapsto> [''./.''], ''FT'' \<mapsto> [''q10''], ''REQ'' \<mapsto> [''PASS'']],
      ''NA2'' \<mapsto> [''GT'' \<mapsto> [''1/1''], ''FT'' \<mapsto> [''PASS''], ''REQ'' \<mapsto> [''PASS'']]]\<rparr>"
proof -
  have names: "sampleNames tagRecord = [''NA1'', ''NA2'']"
    by (simp add: tagRecord_def Variant'_def)
  have first: "passes ex tagFilter tagRecord ''NA1'' = (Inr False, tagRecord)"
    using passes_pair [of ex tagFilter tagRecord "''NA1''"] tag_verdicts(1) by simp
  have missing: "allMissing ''0|1'' = ''./.''"
    by (simp add: allMissing_def splitGenotype_def isGenotypeSeparator_def)
  have scrub: "setMissingGenotype tagRecord ''NA1'' =
      tagRecord\<lparr>samples :=
        [''NA1'' \<mapsto> [''GT'' \<mapsto> [''./.''], ''FT'' \<mapsto> [''q10''], ''REQ'' \<mapsto> [''PASS'']],
         ''NA2'' \<mapsto> [''GT'' \<mapsto> [''1/1''], ''FT'' \<mapsto> [''PASS''], ''REQ'' \<mapsto> [''PASS'']]]\<rparr>"
    by (auto simp: setMissingGenotype_def tagRecord_def Variant'_def missing fun_upd_twist
        fun_eq_iff)
  have "fst (passes ex tagFilter (setMissingGenotype tagRecord ''NA1'') ''NA2'') = Inr True"
    using passes_after_other [of "''NA1''" "''NA2''" ex tagFilter tagRecord]
      tag_verdicts(2) by simp
  then have second: "passes ex tagFilter (setMissingGenotype tagRecord ''NA1'') ''NA2'' =
      (Inr True, setMissingGenotype tagRecord ''NA1'')"
    using passes_pair [of ex tagFilter "setMissingGenotype tagRecord ''NA1''" "''NA2''"]
    by simp
  show ?thesis
    using names first second scrub by (simp add: removeFilteredGenotypes_def)
qed

text \<open>
  Claim C8: \<open>removeFilteredGenotypes\<close> is idempotent. For every record and every
  filter, the record left by a second application is the record left by the first.
  The rewrite of a failing sample's genotype keeps the ploidy, and rewriting an
  all-missing genotype changes nothing.
\<close>

theorem removeFilteredGenotypes_idempotent:
  "snd (removeFilteredGenotypes ex f (snd (removeFilteredGenotypes ex f var))) =
     snd (removeFilteredGenotypes ex f var) \<and>
   allMissing (allMissing g) = allMissing g \<and>
   length (splitGenotype (allMissing g)) = length (splitGenotype g)"
  using removeFiltered_settled [of ex f "sampleNames var" var]
  by (simp add: removeFilteredGenotypes_def removeFiltered_sampleNames allMissing_idem
      allMissing_ploidy)

theorem removeFilteredGenotypes_idempotent_witness:
  "VariantFilter' extractNumber ''FT = REQ'' SAMPLE
     [''FT'' \<mapsto> FIELD_STRING, ''REQ'' \<mapsto> FIELD_STRING] = Returns (Inr tagFilter) \<and>
   snd (removeFilteredGenotypes extractNumber tagFilter tagRecord) =
     tagRecord\<lparr>samples :=
       [''NA1'' \<mapsto> [''GT'' \<mapsto> [''./.''], ''FT'' \<mapsto> [''q10''], ''REQ'' \<mapsto> [''PASS'']],
        ''NA2'' \<mapsto> [''GT'' \<mapsto> [''1/1''], ''FT'' \<mapsto> [''PASS''], ''REQ'' \<mapsto> [''PASS'']]]\<rparr> \<and>
   snd (removeFilteredGenotypes extractNumber tagFilter
      (tagRecord\<lparr>samples :=
        [''NA1'' \<mapsto> [''GT'' \<mapsto> [''./.''], ''FT'' \<mapsto> [''q10''], ''REQ'' \<mapsto> [''PASS'']],
         ''NA2'' \<mapsto> [''GT'' \<mapsto> [''1/1''], ''FT'' \<mapsto> [''PASS''], ''REQ'' \<mapsto> [''PASS'']]]\<rparr>)) =
     tagRecord\<lparr>samples :=
       [''NA1'' \<mapsto> [''GT'' \<mapsto> [''./.''], ''FT'' \<mapsto> [''q10''], ''REQ'' \<mapsto> [''PASS'']],
        ''NA2'' \<mapsto> [''GT'' \<mapsto> [''1/1''], ''FT'' \<mapsto> [''PASS''], ''REQ'' \<mapsto> [''PASS'']]]\<rparr>"
  using removeFilteredGenotypes_idempotent [of extractNumber tagFilter tagRecord]
    tag_scrubbed [of extractNumber] tagFilter_compiled [of extractNumber]
  by simp

end
